theory Spec2Isabelle
  imports Main
begin

section \<open>The Melfa robot session (src/src/MelfaRobot.py)\<close>

subsection \<open>The command catalog\<close>

text \<open>
  Modelled from the spec: the module \<^verbatim>\<open>MelfaCmd\<close> is imported by
  \<^verbatim>\<open>MelfaRobot.py\<close> but is not among the sources. The spec describes it as
  named constants for each protocol operation (open communication, close
  communication, control on/off, servo on/off) plus the servo settle duration
  constant, consumed opaquely. The catalog is therefore a parameter of every
  operation: a record of six command strings and the settle duration. Nothing is
  assumed about the strings (not even that they differ). The duration is a
  number of time units, a natural number.
\<close>

record MelfaCmd =
  COM_OPEN :: string
  COM_CLOSE :: string
  CNTL_ON :: string
  CNTL_OFF :: string
  SRV_ON :: string
  SRV_OFF :: string
  SERVO_INIT_SEC :: nat

subsection \<open>The transport object\<close>

text \<open>
  \<^verbatim>\<open>tcp_client\<close> is duck typed: any object, of which the constructor only
  asks \<^verbatim>\<open>hasattr(tcp_client, 'send')\<close> and \<^verbatim>\<open>hasattr(tcp_client, 'receive')\<close>.
  An attribute that may be absent is an \<open>option\<close>. The value of a present
  attribute is either a method, or some other object that cannot be called
  (\<^verbatim>\<open>send = None\<close>, say), of which only the name of its type matters. A \<^verbatim>\<open>send\<close>
  method takes the message and the transport's internal state, and returns the
  new internal state together with \<open>None\<close> (it returned) or \<open>Some e\<close> (it raised
  \<open>e\<close>); a \<^verbatim>\<open>receive\<close> method returns the response or raises. The internal state
  \<open>'t\<close> and the transport's own exceptions \<open>'e\<close> are arbitrary. The session never
  assigns or deletes an attribute of the transport, and the model keeps the
  attributes of the object fixed while the session uses it.
\<close>

datatype 'f attribute = Not_callable string | Method (method_of: 'f)

record ('t, 'e) TCPClient =
  send_attr :: "(string \<Rightarrow> 't \<Rightarrow> 'e option \<times> 't) attribute option"
  receive_attr :: "('t \<Rightarrow> ('e + string) \<times> 't) attribute option"
  internal :: 't

text \<open>
  What a call can raise: the two \<^verbatim>\<open>TypeError\<close>s of the constructor, Python's
  \<^verbatim>\<open>TypeError\<close> for a call of an object that is not callable, Python's
  \<^verbatim>\<open>AttributeError\<close> for an attribute the object does not have, and whatever the
  transport's own methods raise.
\<close>

datatype 'e exn = TypeError string | AttributeError string | TransportError 'e

subsection \<open>The session object\<close>

text \<open>
  What the environment sees of a session, in order: each call of \<^verbatim>\<open>send\<close> with
  its message, each call of \<^verbatim>\<open>receive\<close>, each \<^verbatim>\<open>sleep\<close> with its duration. A call
  is recorded when it is made, whether it returns or raises.
\<close>

datatype event = Send string | Receive | Sleep nat

text \<open>
  The four attributes that \<^verbatim>\<open>__init__\<close> assigns. \<open>observed\<close> is not an
  attribute of the Python object: it is the history of events, kept in the state
  so that the order of the commands can be stated.
\<close>

record ('t, 'e) MelfaRobot =
  tcp :: "('t, 'e) TCPClient"
  joints :: "string set"
  servo :: bool
  com_ctrl :: bool
  observed :: "event list"

text \<open>
  A method mutates the object and either returns (\<open>None\<close>) or raises
  (\<open>Some x\<close>); the object keeps the mutations made before the raise.
\<close>

type_synonym ('t, 'e) routine =
  "('t, 'e) MelfaRobot \<Rightarrow> 'e exn option \<times> ('t, 'e) MelfaRobot"

text \<open>Statement sequencing: the second statement runs only if the first returned.\<close>

definition then_do :: "('t, 'e) routine \<Rightarrow> ('t, 'e) routine \<Rightarrow> ('t, 'e) routine" where
  "then_do p q self =
     (case p self of
        (None, self') \<Rightarrow> q self'
      | (Some x, self') \<Rightarrow> (Some x, self'))"

text \<open>The message of Python's \<^verbatim>\<open>TypeError: 'T' object is not callable\<close>.\<close>

definition not_callable :: "string \<Rightarrow> 'e exn" where
  "not_callable type_name = TypeError (CHR 0x27 # type_name @ CHR 0x27 # '' object is not callable'')"

text \<open>\<^verbatim>\<open>self.tcp.send(msg)\<close>\<close>

definition tcp_send :: "string \<Rightarrow> ('t, 'e) routine" where
  "tcp_send msg self =
     (case send_attr (tcp self) of
        None \<Rightarrow> (Some (AttributeError ''send''), self)
      | Some (Not_callable type_name) \<Rightarrow> (Some (not_callable type_name), self)
      | Some (Method f) \<Rightarrow>
          (case f msg (internal (tcp self)) of
             (r, t') \<Rightarrow>
               (map_option TransportError r,
                self\<lparr>tcp := (tcp self)\<lparr>internal := t'\<rparr>,
                     observed := observed self @ [Send msg]\<rparr>)))"

text \<open>\<^verbatim>\<open>self.tcp.receive()\<close>, as a statement: the response is dropped.\<close>

definition tcp_receive :: "('t, 'e) routine" where
  "tcp_receive self =
     (case receive_attr (tcp self) of
        None \<Rightarrow> (Some (AttributeError ''receive''), self)
      | Some (Not_callable type_name) \<Rightarrow> (Some (not_callable type_name), self)
      | Some (Method g) \<Rightarrow>
          (case g (internal (tcp self)) of
             (r, t') \<Rightarrow>
               ((case r of Inl e \<Rightarrow> Some (TransportError e) | Inr response \<Rightarrow> None),
                self\<lparr>tcp := (tcp self)\<lparr>internal := t'\<rparr>,
                     observed := observed self @ [Receive]\<rparr>)))"

text \<open>
  \<^verbatim>\<open>sleep(d)\<close>. Python's \<^verbatim>\<open>sleep\<close> raises only for a negative duration, which
  the type of \<open>SERVO_INIT_SEC\<close> excludes; so it always returns.
\<close>

definition sleep :: "nat \<Rightarrow> ('t, 'e) routine" where
  "sleep d self = (None, self\<lparr>observed := observed self @ [Sleep d]\<rparr>)"

text \<open>\<^verbatim>\<open>str(i)\<close> for a Python integer: its decimal numeral.\<close>

definition digit_char :: "nat \<Rightarrow> char" where
  "digit_char d = ''0123456789'' ! d"

function str_nat :: "nat \<Rightarrow> string" where
  "str_nat n = (if n < 10 then [digit_char n] else str_nat (n div 10) @ [digit_char (n mod 10)])"
  by pat_completeness auto
termination
  by (relation "measure id") auto

declare str_nat.simps [simp del]

definition str :: "int \<Rightarrow> string" where
  "str i = (if i < 0 then CHR ''-'' # str_nat (nat (- i)) else str_nat (nat i))"

text \<open>\<^verbatim>\<open>MelfaRobot.__init__(self, tcp_client, number_axes)\<close>\<close>

definition init :: "('t, 'e) TCPClient \<Rightarrow> int \<Rightarrow> 'e exn + ('t, 'e) MelfaRobot" where
  "init tcp_client number_axes =
     (if send_attr tcp_client = None \<or> receive_attr tcp_client = None
      then Inl (TypeError ''TCP-client does not implement required methods.'')
      else if \<not> number_axes > 0
      then Inl (TypeError ''Illegal number of axes.'')
      else Inr \<lparr>tcp = tcp_client,
                joints = set (map (\<lambda>i. ''J'' @ str i) [1..number_axes]),
                servo = False,
                com_ctrl = False,
                observed = []\<rparr>)"

text \<open>The default \<^verbatim>\<open>number_axes: int = 6\<close>.\<close>

definition init_default :: "('t, 'e) TCPClient \<Rightarrow> 'e exn + ('t, 'e) MelfaRobot" where
  "init_default tcp_client = init tcp_client 6"

text \<open>The four methods whose body is \<^verbatim>\<open>pass\<close>.\<close>

definition reset_speed_factors :: "('t, 'e) routine" where
  "reset_speed_factors self = (None, self)"

definition go_safe_pos :: "('t, 'e) routine" where
  "go_safe_pos self = (None, self)"

definition linear_move_poll :: "('t, 'e) routine" where
  "linear_move_poll self = (None, self)"

definition circular_move_poll :: "bool \<Rightarrow> ('t, 'e) routine" where
  "circular_move_poll is_clockwise self = (None, self)"

text \<open>\<^verbatim>\<open>change_communication_state(self, activate)\<close>\<close>

definition change_communication_state :: "MelfaCmd \<Rightarrow> bool \<Rightarrow> ('t, 'e) routine" where
  "change_communication_state mc activate =
     then_do
       (if activate
        then then_do (tcp_send (COM_OPEN mc))
               (then_do tcp_receive
                 (then_do (tcp_send (CNTL_ON mc)) tcp_receive))
        else then_do (tcp_send (CNTL_OFF mc))
               (then_do tcp_receive
                 (then_do (tcp_send (COM_CLOSE mc)) tcp_receive)))
       (\<lambda>self. (None, self\<lparr>com_ctrl := activate\<rparr>))"

text \<open>\<^verbatim>\<open>change_servo_state(self, activate)\<close>\<close>

definition change_servo_state :: "MelfaCmd \<Rightarrow> bool \<Rightarrow> ('t, 'e) routine" where
  "change_servo_state mc activate =
     then_do
       (if activate
        then then_do (tcp_send (SRV_ON mc)) tcp_receive
        else then_do (tcp_send (SRV_OFF mc)) tcp_receive)
       (then_do (sleep (SERVO_INIT_SEC mc))
         (\<lambda>self. (None, self\<lparr>servo := activate\<rparr>)))"

text \<open>\<^verbatim>\<open>start(self, safe_return)\<close>\<close>

definition start :: "MelfaCmd \<Rightarrow> bool \<Rightarrow> ('t, 'e) routine" where
  "start mc safe_return =
     then_do (change_communication_state mc True)
       (then_do (change_servo_state mc True)
         (if safe_return then go_safe_pos else (\<lambda>self. (None, self))))"

text \<open>\<^verbatim>\<open>shutdown(self, safe_return)\<close>\<close>

definition shutdown :: "MelfaCmd \<Rightarrow> bool \<Rightarrow> ('t, 'e) routine" where
  "shutdown mc safe_return =
     then_do (if safe_return then go_safe_pos else (\<lambda>self. (None, self)))
       (then_do (change_servo_state mc False)
         (change_communication_state mc False))"

text \<open>\<^verbatim>\<open>maintenance(self)\<close>\<close>

definition maintenance :: "MelfaCmd \<Rightarrow> ('t, 'e) routine" where
  "maintenance mc = change_communication_state mc True"

subsection \<open>Identifier validation\<close>

text \<open>
  Modelled from the spec: \<^verbatim>\<open>validate_id\<close> is imported by
  \<^verbatim>\<open>test/test_ComClient.py\<close> from \<^verbatim>\<open>src.clients.ComClient\<close>, which is not among the
  sources. The spec gives it as the pure function
  \<^verbatim>\<open>validate_id(x) = 0 <= x <= 65535\<close> on integers.
\<close>

definition validate_id :: "int \<Rightarrow> bool" where
  "validate_id x = (0 \<le> x \<and> x \<le> 65535)"

text \<open>
  The four cases of \<^verbatim>\<open>test_validate_id\<close>, as the test writes them:
  \<^verbatim>\<open>[(0, True), (-1, False), (2 ** 16 - 1, True), (2 ** 16, False)]\<close>.
\<close>

definition test_validate_id_params :: "(int \<times> bool) list" where
  "test_validate_id_params = [(0, True), (- 1, False), (2 ^ 16 - 1, True), (2 ^ 16, False)]"

subsection \<open>Callers\<close>

text \<open>
  A caller's straight-line script over one session: the public methods, called
  one after the other. An exception that a call raises is not caught, so it ends
  the script.
\<close>

datatype call =
    Start bool
  | Shutdown bool
  | Maintenance
  | Change_communication_state bool
  | Change_servo_state bool
  | Reset_speed_factors
  | Go_safe_pos
  | Linear_move_poll
  | Circular_move_poll bool

fun exec_call :: "MelfaCmd \<Rightarrow> call \<Rightarrow> ('t, 'e) routine" where
  "exec_call mc (Start safe_return) = start mc safe_return"
| "exec_call mc (Shutdown safe_return) = shutdown mc safe_return"
| "exec_call mc Maintenance = maintenance mc"
| "exec_call mc (Change_communication_state activate) = change_communication_state mc activate"
| "exec_call mc (Change_servo_state activate) = change_servo_state mc activate"
| "exec_call mc Reset_speed_factors = reset_speed_factors"
| "exec_call mc Go_safe_pos = go_safe_pos"
| "exec_call mc Linear_move_poll = linear_move_poll"
| "exec_call mc (Circular_move_poll is_clockwise) = circular_move_poll is_clockwise"

fun run_calls :: "MelfaCmd \<Rightarrow> call list \<Rightarrow> ('t, 'e) routine" where
  "run_calls mc [] self = (None, self)"
| "run_calls mc (c # cs) self = then_do (exec_call mc c) (run_calls mc cs) self"

subsection \<open>Reading the history\<close>



subsection \<open>Assumptions on the transport\<close>

text \<open>
  The object has both methods: \<^verbatim>\<open>send\<close> and \<^verbatim>\<open>receive\<close> are present and can be
  called. (\<^verbatim>\<open>__init__\<close> checks less: that both attributes are present.)
\<close>

definition has_methods :: "('t, 'e) TCPClient \<Rightarrow> bool" where
  "has_methods c =
     ((case send_attr c of Some (Method f) \<Rightarrow> True | _ \<Rightarrow> False)
      \<and> (case receive_attr c of Some (Method g) \<Rightarrow> True | _ \<Rightarrow> False))"

text \<open>
  Every call of \<^verbatim>\<open>send\<close> and every call of \<^verbatim>\<open>receive\<close> returns, whatever the
  message and the transport's internal state.
\<close>

definition always_succeeds :: "('t, 'e) TCPClient \<Rightarrow> bool" where
  "always_succeeds c =
     ((case send_attr c of
         Some (Method f) \<Rightarrow> \<forall>msg t. fst (f msg t) = None
       | _ \<Rightarrow> False)
      \<and> (case receive_attr c of
            Some (Method g) \<Rightarrow> \<forall>t. \<exists>response. fst (g t) = Inr response
          | _ \<Rightarrow> False))"

text \<open>
  Two transports that differ in the response payloads only: the same \<^verbatim>\<open>send\<close>,
  the same internal state, and \<^verbatim>\<open>receive\<close> methods that, in every internal state,
  move to the same next state and either both return (any two responses) or
  both raise the same exception.
\<close>

definition same_outcome :: "'e + string \<Rightarrow> 'e + string \<Rightarrow> bool" where
  "same_outcome r1 r2 =
     (case r1 of
        Inl e1 \<Rightarrow> (case r2 of Inl e2 \<Rightarrow> e1 = e2 | Inr response2 \<Rightarrow> False)
      | Inr response1 \<Rightarrow> (case r2 of Inl e2 \<Rightarrow> False | Inr response2 \<Rightarrow> True))"

definition payload_variant :: "('t, 'e) TCPClient \<Rightarrow> ('t, 'e) TCPClient \<Rightarrow> bool" where
  "payload_variant c1 c2 =
     (send_attr c1 = send_attr c2 \<and> internal c1 = internal c2
      \<and> (case receive_attr c1 of
            None \<Rightarrow> receive_attr c2 = None
          | Some (Not_callable type_name) \<Rightarrow> receive_attr c2 = Some (Not_callable type_name)
          | Some (Method g1) \<Rightarrow>
              (case receive_attr c2 of
                 Some (Method g2) \<Rightarrow>
                   \<forall>t. snd (g1 t) = snd (g2 t) \<and> same_outcome (fst (g1 t)) (fst (g2 t))
               | _ \<Rightarrow> False)))"

subsection \<open>Test doubles\<close>

text \<open>A catalog with six different commands, for concrete runs.\<close>

definition example_cmd :: MelfaCmd where
  "example_cmd =
     \<lparr>COM_OPEN = ''OPEN'', COM_CLOSE = ''CLOSE'', CNTL_ON = ''CNTLON'',
      CNTL_OFF = ''CNTLOFF'', SRV_ON = ''SRVON'', SRV_OFF = ''SRVOFF'',
      SERVO_INIT_SEC = 5\<rparr>"

text \<open>
  A transport double that counts the calls it has served. With \<open>Some k\<close>, the
  call number \<open>k\<close> (from 0) raises; every other call returns, \<^verbatim>\<open>receive\<close> with
  the given response.
\<close>

definition test_client :: "nat option \<Rightarrow> string \<Rightarrow> (nat, string) TCPClient" where
  "test_client failing response =
     \<lparr>send_attr = Some (Method (\<lambda>msg n. (if failing = Some n then Some ''connection lost'' else None, Suc n))),
      receive_attr = Some (Method (\<lambda>n. (if failing = Some n then Inl ''connection lost'' else Inr response, Suc n))),
      internal = 0\<rparr>"

text \<open>An object without \<^verbatim>\<open>receive\<close>.\<close>

definition send_only_client :: "(nat, string) TCPClient" where
  "send_only_client =
     \<lparr>send_attr = Some (Method (\<lambda>msg n. (None, Suc n))), receive_attr = None, internal = 0\<rparr>"

text \<open>
  An object whose \<^verbatim>\<open>send\<close> attribute is present but is not a method
  (\<^verbatim>\<open>tcp_client.send = None\<close>); its \<^verbatim>\<open>receive\<close> is a method.
\<close>

definition uncallable_send_client :: "(nat, string) TCPClient" where
  "uncallable_send_client =
     \<lparr>send_attr = Some (Not_callable ''NoneType''),
      receive_attr = Some (Method (\<lambda>n. (Inr ''ok'', Suc n))),
      internal = 0\<rparr>"

text \<open>A session fresh from the constructor, with six axes, over the transport double.\<close>

definition fresh_robot :: "nat option \<Rightarrow> (nat, string) MelfaRobot" where
  "fresh_robot failing = projr (init (test_client failing ''ok'') 6)"

subsection \<open>Vocabulary of the proofs\<close>

text \<open>
  \<open>keeps f p\<close>: the routine \<open>p\<close> leaves the observation \<open>f\<close> of the session as
  it was, whether it returns or raises. \<open>emits p evs\<close>: in every run, \<open>p\<close> adds
  an initial part of \<open>evs\<close> to the history, and all of it when it returns.
  \<open>reliable c\<close>: the transport has both methods and they always return;
  \<open>returns p\<close>: on a reliable transport \<open>p\<close> returns. \<open>raises_transport_only p\<close>:
  on a transport with both methods, no exception out of \<open>p\<close> is one of the
  session's own (\<open>own_exception\<close>: a \<^verbatim>\<open>TypeError\<close> or an \<^verbatim>\<open>AttributeError\<close>), and the
  transport still has both methods afterwards. \<open>decimal_value\<close> reads a decimal numeral back.
\<close>

definition emits :: "('t, 'e) routine \<Rightarrow> event list \<Rightarrow> bool" where
  "emits p evs =
     (\<forall>self. \<exists>k. k \<le> length evs
        \<and> observed (snd (p self)) = observed self @ take k evs
        \<and> (fst (p self) = None \<longrightarrow> k = length evs))"

fun own_exception :: "'e exn \<Rightarrow> bool" where
  "own_exception (TypeError msg) = True"
| "own_exception (AttributeError msg) = True"
| "own_exception (TransportError e) = False"

definition raises_transport_only :: "('t, 'e) routine \<Rightarrow> bool" where
  "raises_transport_only p =
     (\<forall>self. has_methods (tcp self) \<longrightarrow>
        has_methods (tcp (snd (p self)))
        \<and> (\<forall>x. fst (p self) = Some x \<longrightarrow> \<not> own_exception x))"

definition reliable :: "('t, 'e) TCPClient \<Rightarrow> bool" where
  "reliable c = (has_methods c \<and> always_succeeds c)"

definition returns :: "('t, 'e) routine \<Rightarrow> bool" where
  "returns p =
     (\<forall>self. reliable (tcp self) \<longrightarrow> fst (p self) = None \<and> reliable (tcp (snd (p self))))"

definition keeps :: "(('t, 'e) MelfaRobot \<Rightarrow> 'a) \<Rightarrow> ('t, 'e) routine \<Rightarrow> bool" where
  "keeps f p = (\<forall>self. f (snd (p self)) = f self)"


text \<open>
  \<open>twin s1 s2\<close>: two sessions with the same flags over transports that differ in
  the response payloads only. \<open>payload_blind p\<close>: from twin sessions, \<open>p\<close> ends
  the same way in both and leaves them twins.
\<close>

definition twin :: "('t, 'e) MelfaRobot \<Rightarrow> ('t, 'e) MelfaRobot \<Rightarrow> bool" where
  "twin s1 s2 =
     (payload_variant (tcp s1) (tcp s2) \<and> servo s1 = servo s2 \<and> com_ctrl s1 = com_ctrl s2)"

definition payload_blind :: "('t, 'e) routine \<Rightarrow> bool" where
  "payload_blind p =
     (\<forall>s1 s2. twin s1 s2 \<longrightarrow> fst (p s1) = fst (p s2) \<and> twin (snd (p s1)) (snd (p s2)))"

section \<open>Sequencing, frames and histories\<close>

lemma then_do_None: "p s = (None, s') \<Longrightarrow> then_do p q s = q s'"
  by (simp add: then_do_def)

lemma then_do_Some: "p s = (Some x, s') \<Longrightarrow> then_do p q s = (Some x, s')"
  by (simp add: then_do_def)

lemma then_do_NoneD:
  "then_do p q s = (None, s') \<Longrightarrow> \<exists>s1. p s = (None, s1) \<and> q s1 = (None, s')"
  by (auto simp: then_do_def split: prod.splits option.splits)

lemma then_do_SomeD:
  "then_do p q s = (Some x, s') \<Longrightarrow>
     p s = (Some x, s') \<or> (\<exists>s1. p s = (None, s1) \<and> q s1 = (Some x, s'))"
  by (auto simp: then_do_def split: prod.splits option.splits)

lemma keepsD: "keeps f p \<Longrightarrow> f (snd (p s)) = f s"
  by (simp add: keeps_def)

lemma keeps_then_do:
  assumes "keeps f p" and "keeps f q"
  shows "keeps f (then_do p q)"
  unfolding keeps_def
proof
  fix s
  obtain r s' where ps: "p s = (r, s')" by (cases "p s")
  then have "f s' = f s" using keepsD [OF assms(1), of s] by simp
  then show "f (snd (then_do p q s)) = f s"
    using ps keepsD [OF assms(2), of s']
    by (cases r) (simp_all add: then_do_def)
qed

lemma keeps_skip: "keeps f (\<lambda>self. (None, self))"
  by (simp add: keeps_def)

lemma keeps_tcp_send:
  "keeps joints (tcp_send m)"
  "keeps servo (tcp_send m)"
  "keeps com_ctrl (tcp_send m)"
  "keeps (\<lambda>self. send_attr (tcp self)) (tcp_send m)"
  "keeps (\<lambda>self. receive_attr (tcp self)) (tcp_send m)"
  by (simp_all add: keeps_def tcp_send_def split: option.splits prod.splits attribute.splits)

lemma keeps_tcp_receive:
  "keeps joints tcp_receive"
  "keeps servo tcp_receive"
  "keeps com_ctrl tcp_receive"
  "keeps (\<lambda>self. send_attr (tcp self)) tcp_receive"
  "keeps (\<lambda>self. receive_attr (tcp self)) tcp_receive"
  by (simp_all add: keeps_def tcp_receive_def split: option.splits prod.splits attribute.splits)

lemma keeps_sleep:
  "keeps joints (sleep d)"
  "keeps servo (sleep d)"
  "keeps com_ctrl (sleep d)"
  "keeps (\<lambda>self. send_attr (tcp self)) (sleep d)"
  "keeps (\<lambda>self. receive_attr (tcp self)) (sleep d)"
  by (simp_all add: keeps_def sleep_def)

lemma keeps_go_safe_pos: "keeps f go_safe_pos"
  by (simp add: keeps_def go_safe_pos_def)

lemma keeps_assign: "(\<And>s. f (upd s) = f s) \<Longrightarrow> keeps f (\<lambda>self. (None, upd self))"
  by (simp add: keeps_def)

lemmas keeps_primitives =
  keeps_then_do keeps_skip keeps_tcp_send keeps_tcp_receive keeps_sleep keeps_go_safe_pos
  keeps_assign

lemma keeps_change_servo_state:
  "keeps joints (change_servo_state mc b)"
  "keeps com_ctrl (change_servo_state mc b)"
  "keeps (\<lambda>self. send_attr (tcp self)) (change_servo_state mc b)"
  "keeps (\<lambda>self. receive_attr (tcp self)) (change_servo_state mc b)"
  unfolding change_servo_state_def
  by (simp_all add: keeps_primitives)

lemma keeps_change_communication_state:
  "keeps joints (change_communication_state mc b)"
  "keeps servo (change_communication_state mc b)"
  "keeps (\<lambda>self. send_attr (tcp self)) (change_communication_state mc b)"
  "keeps (\<lambda>self. receive_attr (tcp self)) (change_communication_state mc b)"
  unfolding change_communication_state_def
  by (simp_all add: keeps_primitives)

subsection \<open>emits\<close>

lemma emits_then_do:
  assumes "emits p a" and "emits q b"
  shows "emits (then_do p q) (a @ b)"
  unfolding emits_def
proof
  fix s
  obtain r s1 where ps: "p s = (r, s1)" by (cases "p s")
  from assms(1) obtain k where k: "k \<le> length a" "observed s1 = observed s @ take k a"
    "r = None \<longrightarrow> k = length a"
    unfolding emits_def using ps by (metis fst_conv snd_conv)
  show "\<exists>k\<le>length (a @ b).
            observed (snd (then_do p q s)) = observed s @ take k (a @ b) \<and>
            (fst (then_do p q s) = None \<longrightarrow> k = length (a @ b))"
  proof (cases r)
    case None
    from assms(2) obtain j where j: "j \<le> length b"
      "observed (snd (q s1)) = observed s1 @ take j b"
      "fst (q s1) = None \<longrightarrow> j = length b"
      unfolding emits_def by blast
    have td: "then_do p q s = q s1" using ps None by (simp add: then_do_None)
    have "k = length a" using k(3) None by simp
    then have "observed (snd (q s1)) = observed s @ take (length a + j) (a @ b)"
      using j(2) k(2) by simp
    then show ?thesis using td j(1) j(3)
      by (intro exI [of _ "length a + j"]) simp
  next
    case (Some x)
    have td: "then_do p q s = (Some x, s1)" using ps Some by (simp add: then_do_Some)
    show ?thesis using td k(1) k(2)
      by (intro exI [of _ k]) simp
  qed
qed

lemma emits_tcp_send: "emits (tcp_send m) [Send m]"
  unfolding emits_def
proof
  fix s :: "('a, 'b) MelfaRobot"
  show "\<exists>k\<le>length [Send m]. observed (snd (tcp_send m s)) = observed s @ take k [Send m]
          \<and> (fst (tcp_send m s) = None \<longrightarrow> k = length [Send m])"
  proof (cases "send_attr (tcp s)")
    case None
    then show ?thesis by (intro exI [of _ 0]) (simp add: tcp_send_def)
  next
    case (Some a)
    show ?thesis
    proof (cases a)
      case (Not_callable type_name)
      then show ?thesis using Some
        by (intro exI [of _ 0]) (simp add: tcp_send_def not_callable_def)
    next
      case (Method f)
      then show ?thesis using Some
        by (intro exI [of _ 1]) (simp add: tcp_send_def split: prod.splits)
    qed
  qed
qed

lemma emits_tcp_receive: "emits tcp_receive [Receive]"
  unfolding emits_def
proof
  fix s :: "('a, 'b) MelfaRobot"
  show "\<exists>k\<le>length [Receive]. observed (snd (tcp_receive s)) = observed s @ take k [Receive]
          \<and> (fst (tcp_receive s) = None \<longrightarrow> k = length [Receive])"
  proof (cases "receive_attr (tcp s)")
    case None
    then show ?thesis by (intro exI [of _ 0]) (simp add: tcp_receive_def)
  next
    case (Some a)
    show ?thesis
    proof (cases a)
      case (Not_callable type_name)
      then show ?thesis using Some
        by (intro exI [of _ 0]) (simp add: tcp_receive_def not_callable_def)
    next
      case (Method g)
      then show ?thesis using Some
        by (intro exI [of _ 1]) (simp add: tcp_receive_def split: prod.splits)
    qed
  qed
qed

lemma emits_sleep: "emits (sleep d) [Sleep d]"
  unfolding emits_def by (intro allI exI [of _ 1]) (simp add: sleep_def)

lemma emits_assign:
  assumes "\<And>s. observed (upd s) = observed s"
  shows "emits (\<lambda>s. (None, upd s)) []"
  unfolding emits_def using assms by simp

lemma emits_go_safe_pos: "emits go_safe_pos []"
  unfolding emits_def go_safe_pos_def by simp

lemma emits_exchange: "emits (then_do (tcp_send m) tcp_receive) [Send m, Receive]"
  using emits_then_do [OF emits_tcp_send emits_tcp_receive, of m] by simp

lemma emits_two_exchanges:
  "emits (then_do (tcp_send m) (then_do tcp_receive (then_do (tcp_send m') tcp_receive)))
     [Send m, Receive, Send m', Receive]"
  using emits_then_do [OF emits_tcp_send emits_then_do [OF emits_tcp_receive emits_exchange], of m m']
  by simp

lemma emits_change_servo_state:
  "emits (change_servo_state mc b)
     [Send (if b then SRV_ON mc else SRV_OFF mc), Receive, Sleep (SERVO_INIT_SEC mc)]"
proof -
  have tail: "emits (then_do (sleep (SERVO_INIT_SEC mc)) (\<lambda>self. (None, self\<lparr>servo := b\<rparr>)))
                [Sleep (SERVO_INIT_SEC mc)]"
    using emits_then_do [OF emits_sleep emits_assign [of "\<lambda>self. self\<lparr>servo := b\<rparr>"]]
    by simp
  show ?thesis
    using emits_then_do [OF emits_exchange tail]
    by (cases b) (simp_all add: change_servo_state_def)
qed

lemma emits_change_communication_state:
  "emits (change_communication_state mc b)
     [Send (if b then COM_OPEN mc else CNTL_OFF mc), Receive,
      Send (if b then CNTL_ON mc else COM_CLOSE mc), Receive]"
  using emits_then_do [OF emits_two_exchanges emits_assign [of "\<lambda>self. self\<lparr>com_ctrl := b\<rparr>"]]
  by (cases b) (simp_all add: change_communication_state_def)

lemma emits_skip: "emits (\<lambda>self. (None, self)) []"
  unfolding emits_def by simp


lemma emits_shutdown:
  "emits (shutdown mc safe_return)
     [Send (SRV_OFF mc), Receive, Sleep (SERVO_INIT_SEC mc),
      Send (CNTL_OFF mc), Receive, Send (COM_CLOSE mc), Receive]"
proof -
  have first: "emits (if safe_return then go_safe_pos else (\<lambda>self. (None, self))) []"
    by (simp add: emits_go_safe_pos emits_skip)
  show ?thesis
    using emits_then_do [OF first
            emits_then_do [OF emits_change_servo_state [of mc False]
              emits_change_communication_state [of mc False]]]
    by (simp add: shutdown_def)
qed

subsection \<open>flags\<close>

lemma then_do_flag:
  assumes "keeps f p" and "\<And>s. fst (q s) = None \<and> f (snd (q s)) = v"
  shows "f (snd (then_do p q s)) = (if fst (then_do p q s) = None then v else f s)"
proof -
  obtain r s' where ps: "p s = (r, s')" by (cases "p s")
  then have "f s' = f s" using keepsD [OF assms(1), of s] by simp
  then show ?thesis using ps assms(2) [of s']
    by (cases r) (simp_all add: then_do_def)
qed

lemma change_servo_state_servo:
  "servo (snd (change_servo_state mc b s)) =
     (if fst (change_servo_state mc b s) = None then b else servo s)"
  unfolding change_servo_state_def
  by (rule then_do_flag) (simp_all add: keeps_primitives then_do_def sleep_def)

lemma change_communication_state_com_ctrl:
  "com_ctrl (snd (change_communication_state mc b s)) =
     (if fst (change_communication_state mc b s) = None then b else com_ctrl s)"
  unfolding change_communication_state_def
  by (rule then_do_flag) (simp_all add: keeps_primitives)

lemma has_methods_iff:
  "has_methods c \<longleftrightarrow>
     (\<exists>f g. send_attr c = Some (Method f) \<and> receive_attr c = Some (Method g))"
  by (auto simp: has_methods_def split: option.splits attribute.splits)

lemma always_succeeds_iff:
  "always_succeeds c \<longleftrightarrow>
     (\<exists>f g. send_attr c = Some (Method f) \<and> receive_attr c = Some (Method g)
        \<and> (\<forall>msg t. fst (f msg t) = None) \<and> (\<forall>t. \<exists>response. fst (g t) = Inr response))"
  by (auto simp: always_succeeds_def split: option.splits attribute.splits)

lemma reliable_internal [simp]: "reliable (c\<lparr>internal := t\<rparr>) = reliable c"
  by (simp add: reliable_def has_methods_iff always_succeeds_iff)

lemma has_methods_internal [simp]: "has_methods (c\<lparr>internal := t\<rparr>) = has_methods c"
  by (simp add: has_methods_iff)

subsection \<open>returns\<close>

lemma returns_then_do:
  assumes "returns p" and "returns q"
  shows "returns (then_do p q)"
  unfolding returns_def
proof (intro allI impI)
  fix s :: "('a, 'b) MelfaRobot"
  assume rel: "reliable (tcp s)"
  obtain s1 where ps: "p s = (None, s1)" and r1: "reliable (tcp s1)"
    using assms(1) rel unfolding returns_def by (metis prod.collapse)
  have "then_do p q s = q s1" using ps by (simp add: then_do_None)
  then show "fst (then_do p q s) = None \<and> reliable (tcp (snd (then_do p q s)))"
    using assms(2) r1 unfolding returns_def by simp
qed

lemma returns_tcp_send: "returns (tcp_send m)"
  unfolding returns_def
proof (intro allI impI)
  fix s :: "('a, 'b) MelfaRobot"
  assume rel: "reliable (tcp s)"
  then obtain f where f: "send_attr (tcp s) = Some (Method f)"
    and ok: "\<And>msg t. fst (f msg t) = None"
    by (auto simp: reliable_def always_succeeds_iff)
  show "fst (tcp_send m s) = None \<and> reliable (tcp (snd (tcp_send m s)))"
    using f ok rel by (simp add: tcp_send_def case_prod_beta)
qed

lemma returns_tcp_receive: "returns tcp_receive"
  unfolding returns_def
proof (intro allI impI)
  fix s :: "('a, 'b) MelfaRobot"
  assume rel: "reliable (tcp s)"
  then obtain g where g: "receive_attr (tcp s) = Some (Method g)"
    and ok: "\<And>t. \<exists>response. fst (g t) = Inr response"
    by (auto simp: reliable_def always_succeeds_iff)
  then obtain response where "fst (g (internal (tcp s))) = Inr response"
    by blast
  then show "fst (tcp_receive s) = None \<and> reliable (tcp (snd (tcp_receive s)))"
    using g rel by (simp add: tcp_receive_def case_prod_beta)
qed

lemma returns_sleep: "returns (sleep d)"
  by (simp add: returns_def sleep_def)

lemma returns_assign: "(\<And>s. tcp (upd s) = tcp s) \<Longrightarrow> returns (\<lambda>self. (None, upd self))"
  by (simp add: returns_def)

lemma returns_skip: "returns (\<lambda>self. (None, self))"
  by (simp add: returns_def)

lemma returns_go_safe_pos: "returns go_safe_pos"
  by (simp add: returns_def go_safe_pos_def)

lemmas returns_primitives =
  returns_then_do returns_tcp_send returns_tcp_receive returns_sleep returns_assign
  returns_skip returns_go_safe_pos

lemma returns_change_servo_state: "returns (change_servo_state mc b)"
  by (simp add: change_servo_state_def returns_primitives)

lemma returns_change_communication_state: "returns (change_communication_state mc b)"
  by (simp add: change_communication_state_def returns_primitives)


lemma returns_shutdown: "returns (shutdown mc safe_return)"
  by (simp add: shutdown_def returns_primitives returns_change_servo_state
      returns_change_communication_state)

lemma returnsD: "returns p \<Longrightarrow> reliable (tcp s) \<Longrightarrow> fst (p s) = None"
  by (simp add: returns_def)

lemma emitsD:
  "emits p evs \<Longrightarrow> fst (p s) = None \<Longrightarrow> observed (snd (p s)) = observed s @ evs"
  unfolding emits_def by (metis order_refl take_all)

lemma emits_prefixD:
  "emits p evs \<Longrightarrow> \<exists>k\<le>length evs. observed (snd (p s)) = observed s @ take k evs"
  unfolding emits_def by blast

subsection \<open>start: flags\<close>



lemma change_communication_state_returned:
  assumes "change_communication_state mc b s = (None, s1)"
  shows "com_ctrl s1 = b \<and> servo s1 = servo s \<and> joints s1 = joints s"
  using assms change_communication_state_com_ctrl [of mc b s]
    keepsD [OF keeps_change_communication_state(1), of mc b s]
    keepsD [OF keeps_change_communication_state(2), of mc b s]
  by simp

lemma change_servo_state_returned:
  assumes "change_servo_state mc b s = (None, s1)"
  shows "servo s1 = b \<and> com_ctrl s1 = com_ctrl s \<and> joints s1 = joints s"
  using assms change_servo_state_servo [of mc b s]
    keepsD [OF keeps_change_servo_state(1), of mc b s]
    keepsD [OF keeps_change_servo_state(2), of mc b s]
  by simp

lemma change_servo_state_raised:
  assumes "change_servo_state mc b s = (Some x, s1)"
  shows "servo s1 = servo s \<and> com_ctrl s1 = com_ctrl s \<and> joints s1 = joints s"
  using assms change_servo_state_servo [of mc b s]
    keepsD [OF keeps_change_servo_state(1), of mc b s]
    keepsD [OF keeps_change_servo_state(2), of mc b s]
  by simp


lemma shutdown_returned:
  assumes "shutdown mc safe_return s = (None, s')"
  shows "\<not> com_ctrl s' \<and> \<not> servo s' \<and> joints s' = joints s"
proof -
  from assms obtain s0 where first: "(if safe_return then go_safe_pos else (\<lambda>self. (None, self))) s = (None, s0)"
    and rest: "then_do (change_servo_state mc False) (change_communication_state mc False) s0 = (None, s')"
    unfolding shutdown_def by (blast dest: then_do_NoneD)
  have s0: "s0 = s" using first by (simp add: go_safe_pos_def split: if_splits)
  from rest obtain s1 where v: "change_servo_state mc False s0 = (None, s1)"
    and c: "change_communication_state mc False s1 = (None, s')"
    by (blast dest: then_do_NoneD)
  show ?thesis
    using change_communication_state_returned [OF c] change_servo_state_returned [OF v] s0
    by simp
qed


section \<open>Properties\<close>






lemmas run_defs =
  fresh_robot_def init_def test_client_def example_cmd_def start_def shutdown_def maintenance_def
  change_communication_state_def change_servo_state_def then_do_def tcp_send_def
  tcp_receive_def sleep_def go_safe_pos_def

lemma tcp_send_raised:
  assumes "tcp_send m s = (Some (TransportError e), s1)"
  shows "observed s1 = observed s @ [Send m] \<and> servo s1 = servo s \<and> com_ctrl s1 = com_ctrl s
         \<and> joints s1 = joints s"
  using assms
  by (auto simp: tcp_send_def not_callable_def split: option.splits prod.splits attribute.splits)

lemma exchange_raised:
  assumes "tcp_send m s = (Some x, s2) \<or> (tcp_send m s = (None, s') \<and> tcp_receive s' = (Some x, s2))"
  shows "then_do (tcp_send m) tcp_receive s = (Some x, s2)"
  using assms by (auto simp: then_do_def)

lemma change_servo_state_exchange_raised:
  assumes "then_do (tcp_send (if b then SRV_ON mc else SRV_OFF mc)) tcp_receive s = (Some x, s2)"
  shows "change_servo_state mc b s = (Some x, s2)"
  using assms by (cases b) (simp_all add: change_servo_state_def then_do_Some)

text \<open>
  C2, as the code has it. Take any session on which the communication step of
  \<^verbatim>\<open>start()\<close> completes. If the servo-on step's \<^verbatim>\<open>send\<close> raises the transport
  error \<open>e\<close>, or its \<^verbatim>\<open>send\<close> returns and its \<^verbatim>\<open>receive\<close> raises \<open>e\<close>, then
  \<^verbatim>\<open>start()\<close> raises \<open>e\<close> to its caller, \<open>com_ctrl\<close> is true afterwards, and
  \<open>servo\<close> and the joints are what they were before the call (so \<open>servo\<close> is
  false when the session was fresh). The session has no safe-position flag.
\<close>

theorem start_servo_on_raises:
  assumes "change_communication_state mc True self = (None, s1)"
      and "tcp_send (SRV_ON mc) s1 = (Some (TransportError e), s2)
           \<or> (tcp_send (SRV_ON mc) s1 = (None, s1') \<and> tcp_receive s1' = (Some (TransportError e), s2))"
  shows "start mc safe_return self = (Some (TransportError e), s2)
         \<and> com_ctrl s2 = True \<and> servo s2 = servo self \<and> joints s2 = joints self"
proof -
  have "then_do (tcp_send (if True then SRV_ON mc else SRV_OFF mc)) tcp_receive s1
          = (Some (TransportError e), s2)"
    using exchange_raised [OF assms(2)] by simp
  then have v: "change_servo_state mc True s1 = (Some (TransportError e), s2)"
    by (rule change_servo_state_exchange_raised)
  have "start mc safe_return self = (Some (TransportError e), s2)"
    using assms(1) v by (simp add: start_def then_do_def)
  then show ?thesis
    using change_communication_state_returned [OF assms(1)] change_servo_state_raised [OF v]
    by simp
qed

theorem start_servo_on_raises_witness:
  "change_communication_state example_cmd True (fresh_robot (Some 4))
     = (None, snd (change_communication_state example_cmd True (fresh_robot (Some 4))))
   \<and> tcp_send (SRV_ON example_cmd) (snd (change_communication_state example_cmd True (fresh_robot (Some 4))))
     = (Some (TransportError ''connection lost''),
        snd (start example_cmd True (fresh_robot (Some 4))))
   \<and> fst (start example_cmd True (fresh_robot (Some 4))) = Some (TransportError ''connection lost'')
   \<and> com_ctrl (snd (start example_cmd True (fresh_robot (Some 4)))) = True
   \<and> servo (snd (start example_cmd True (fresh_robot (Some 4)))) = False"
proof -
  have h1: "change_communication_state example_cmd True (fresh_robot (Some 4))
     = (None, snd (change_communication_state example_cmd True (fresh_robot (Some 4))))"
    by (simp add: run_defs)
  have h2: "tcp_send (SRV_ON example_cmd) (snd (change_communication_state example_cmd True (fresh_robot (Some 4))))
     = (Some (TransportError ''connection lost''),
        snd (start example_cmd True (fresh_robot (Some 4))))"
    by (simp add: run_defs)
  have s: "servo (fresh_robot (Some 4)) = False"
    by (simp add: run_defs)
  note r = start_servo_on_raises [OF h1 disjI1 [OF h2], where safe_return = True]
  have "fst (start example_cmd True (fresh_robot (Some 4))) = Some (TransportError ''connection lost'')"
    using r by (metis fst_conv)
  moreover have "com_ctrl (snd (start example_cmd True (fresh_robot (Some 4)))) = True"
    using r by blast
  moreover have "servo (snd (start example_cmd True (fresh_robot (Some 4)))) = False"
    using r s by blast
  ultimately show ?thesis using h1 h2 by blast
qed

text \<open>
  C2, as the spec words it for every session, fails on a session whose servos
  are already on: after a first \<^verbatim>\<open>start()\<close> that succeeded, a second one whose
  servo-on \<^verbatim>\<open>send\<close> raises leaves \<open>servo\<close> true, not false.
\<close>

theorem start_again_servo_stays_on:
  "fst (tcp_send (SRV_ON example_cmd)
         (snd (change_communication_state example_cmd True
                (snd (start example_cmd True (fresh_robot (Some 10)))))))
     = Some (TransportError ''connection lost'')
   \<and> fst (start example_cmd True (snd (start example_cmd True (fresh_robot (Some 10)))))
     = Some (TransportError ''connection lost'')
   \<and> servo (snd (start example_cmd True (snd (start example_cmd True (fresh_robot (Some 10)))))) = True"
  by (simp add: run_defs)

lemma returns_maintenance: "returns (maintenance mc)"
  by (simp add: maintenance_def returns_change_communication_state)

lemma change_servo_state_raised_events:
  assumes "fst (change_servo_state mc b s) \<noteq> None"
  shows "\<exists>k. observed (snd (change_servo_state mc b s)) =
           observed s @ take k [Send (if b then SRV_ON mc else SRV_OFF mc), Receive]"
proof -
  let ?p = "then_do (tcp_send (if b then SRV_ON mc else SRV_OFF mc)) tcp_receive"
  have unf: "change_servo_state mc b =
     then_do ?p (then_do (sleep (SERVO_INIT_SEC mc)) (\<lambda>self. (None, self\<lparr>servo := b\<rparr>)))"
    by (cases b) (simp_all add: change_servo_state_def)
  obtain r s1 where ps: "?p s = (r, s1)" by (cases "?p s")
  show ?thesis
  proof (cases r)
    case None
    then have "fst (change_servo_state mc b s) = None"
      using ps by (simp add: unf then_do_def sleep_def)
    with assms show ?thesis by simp
  next
    case (Some x)
    then have "change_servo_state mc b s = (Some x, s1)"
      using ps by (simp add: unf then_do_Some)
    then show ?thesis
      using emits_prefixD [OF emits_exchange, of "if b then SRV_ON mc else SRV_OFF mc" s] ps
      by (cases b) auto
  qed
qed

text \<open>
  C3. \<^verbatim>\<open>shutdown(safe_return=True)\<close> runs the safe-position step, then the
  servo-off step, then the communication-off step. In every run its history is
  an initial part of: send servo off, receive, settle delay, send control off
  (release control), receive, send close communication, receive; when it returns
  the history is all of it and both flags are false. If the servo-off \<^verbatim>\<open>send\<close>
  raises a transport error, \<^verbatim>\<open>shutdown\<close> raises it, \<open>servo\<close> and \<open>com_ctrl\<close> keep
  their values, and that \<^verbatim>\<open>send\<close> is the only event of the call: neither release
  control nor close communication is sent.
\<close>

theorem shutdown_reverse_order:
  "shutdown mc True self =
     then_do go_safe_pos
       (then_do (change_servo_state mc False) (change_communication_state mc False)) self
   \<and> (\<exists>k. observed (snd (shutdown mc True self)) =
         observed self @
         take k [Send (SRV_OFF mc), Receive, Sleep (SERVO_INIT_SEC mc),
                 Send (CNTL_OFF mc), Receive, Send (COM_CLOSE mc), Receive])
   \<and> (fst (shutdown mc True self) = None \<longrightarrow>
        observed (snd (shutdown mc True self)) =
          observed self @
          [Send (SRV_OFF mc), Receive, Sleep (SERVO_INIT_SEC mc),
           Send (CNTL_OFF mc), Receive, Send (COM_CLOSE mc), Receive]
        \<and> servo (snd (shutdown mc True self)) = False
        \<and> com_ctrl (snd (shutdown mc True self)) = False)
   \<and> (tcp_send (SRV_OFF mc) self = (Some (TransportError e), s1) \<longrightarrow>
        shutdown mc True self = (Some (TransportError e), s1)
        \<and> servo s1 = servo self \<and> com_ctrl s1 = com_ctrl self
        \<and> observed s1 = observed self @ [Send (SRV_OFF mc)])"
proof (intro conjI impI)
  show "shutdown mc True self =
     then_do go_safe_pos
       (then_do (change_servo_state mc False) (change_communication_state mc False)) self"
    by (simp add: shutdown_def)
next
  show "\<exists>k. observed (snd (shutdown mc True self)) =
         observed self @
         take k [Send (SRV_OFF mc), Receive, Sleep (SERVO_INIT_SEC mc),
                 Send (CNTL_OFF mc), Receive, Send (COM_CLOSE mc), Receive]"
    using emits_prefixD [OF emits_shutdown, of mc True self] by blast
next
  assume ret: "fst (shutdown mc True self) = None"
  then have eq: "shutdown mc True self = (None, snd (shutdown mc True self))"
    by (metis prod.collapse)
  show "observed (snd (shutdown mc True self)) =
          observed self @
          [Send (SRV_OFF mc), Receive, Sleep (SERVO_INIT_SEC mc),
           Send (CNTL_OFF mc), Receive, Send (COM_CLOSE mc), Receive]"
    using emitsD [OF emits_shutdown ret] .
  show "servo (snd (shutdown mc True self)) = False"
    using shutdown_returned [OF eq] by simp
  show "com_ctrl (snd (shutdown mc True self)) = False"
    using shutdown_returned [OF eq] by simp
next
  assume f: "tcp_send (SRV_OFF mc) self = (Some (TransportError e), s1)"
  have "then_do (tcp_send (if False then SRV_ON mc else SRV_OFF mc)) tcp_receive self
          = (Some (TransportError e), s1)"
    using f by (simp add: then_do_Some)
  then have v: "change_servo_state mc False self = (Some (TransportError e), s1)"
    by (rule change_servo_state_exchange_raised)
  then show "shutdown mc True self = (Some (TransportError e), s1)"
    by (simp add: shutdown_def go_safe_pos_def then_do_def)
  show "servo s1 = servo self" "com_ctrl s1 = com_ctrl self"
    "observed s1 = observed self @ [Send (SRV_OFF mc)]"
    using tcp_send_raised [OF f] by simp_all
qed

theorem shutdown_reverse_order_witness:
  "fst (shutdown example_cmd True (snd (start example_cmd True (fresh_robot None)))) = None
   \<and> observed (snd (shutdown example_cmd True (snd (start example_cmd True (fresh_robot None))))) =
       [Send ''OPEN'', Receive, Send ''CNTLON'', Receive, Send ''SRVON'', Receive, Sleep 5,
        Send ''SRVOFF'', Receive, Sleep 5, Send ''CNTLOFF'', Receive, Send ''CLOSE'', Receive]
   \<and> servo (snd (shutdown example_cmd True (snd (start example_cmd True (fresh_robot None))))) = False
   \<and> com_ctrl (snd (shutdown example_cmd True (snd (start example_cmd True (fresh_robot None))))) = False
   \<and> fst (tcp_send (SRV_OFF example_cmd) (snd (start example_cmd True (fresh_robot (Some 6)))))
       = Some (TransportError ''connection lost'')
   \<and> fst (shutdown example_cmd True (snd (start example_cmd True (fresh_robot (Some 6)))))
       = Some (TransportError ''connection lost'')
   \<and> servo (snd (shutdown example_cmd True (snd (start example_cmd True (fresh_robot (Some 6)))))) = True
   \<and> com_ctrl (snd (shutdown example_cmd True (snd (start example_cmd True (fresh_robot (Some 6)))))) = True
   \<and> observed (snd (shutdown example_cmd True (snd (start example_cmd True (fresh_robot (Some 6)))))) =
       [Send ''OPEN'', Receive, Send ''CNTLON'', Receive, Send ''SRVON'', Receive, Sleep 5,
        Send ''SRVOFF'']"
proof -
  let ?a = "snd (start example_cmd True (fresh_robot None))"
  let ?b = "snd (start example_cmd True (fresh_robot (Some 6)))"
  have a0: "observed ?a =
     [Send ''OPEN'', Receive, Send ''CNTLON'', Receive, Send ''SRVON'', Receive, Sleep 5]"
    by (simp add: run_defs)
  have a1: "fst (shutdown example_cmd True ?a) = None"
    by (simp add: run_defs)
  have b0: "observed ?b =
     [Send ''OPEN'', Receive, Send ''CNTLON'', Receive, Send ''SRVON'', Receive, Sleep 5]"
     "servo ?b = True" "com_ctrl ?b = True"
    by (simp_all add: run_defs)
  have b1: "tcp_send (SRV_OFF example_cmd) ?b =
     (Some (TransportError ''connection lost''), snd (tcp_send (SRV_OFF example_cmd) ?b))"
    by (simp add: run_defs)
  note ra = shutdown_reverse_order [of example_cmd ?a, THEN conjunct2, THEN conjunct2,
      THEN conjunct1, rule_format, OF a1]
  note rb = shutdown_reverse_order [of example_cmd ?b, THEN conjunct2, THEN conjunct2,
      THEN conjunct2, rule_format, OF b1]
  have "fst (shutdown example_cmd True ?b) = Some (TransportError ''connection lost'')"
    using rb by (metis fst_conv)
  moreover have "snd (shutdown example_cmd True ?b) = snd (tcp_send (SRV_OFF example_cmd) ?b)"
    using rb by (metis snd_conv)
  moreover have "fst (tcp_send (SRV_OFF example_cmd) ?b) = Some (TransportError ''connection lost'')"
    using b1 by (metis fst_conv)
  ultimately show ?thesis
    using a0 a1 b0 ra rb by (simp add: example_cmd_def)
qed

lemma returns_reliableD: "returns p \<Longrightarrow> reliable (tcp s) \<Longrightarrow> reliable (tcp (snd (p s)))"
  by (simp add: returns_def)

text \<open>
  C4. For every session and every \<open>b\<close>, \<^verbatim>\<open>change_servo_state(b)\<close> sends servo on
  (\<open>b\<close> true) or servo off (\<open>b\<close> false), then makes one \<^verbatim>\<open>receive\<close>, then waits
  \<^verbatim>\<open>SERVO_INIT_SEC\<close>, the same constant for both, and then sets \<open>servo\<close> to \<open>b\<close>.
  When the call raises, it has not waited and has not touched the flag. Nothing
  depends on the flag's value before the call: on a transport that always
  succeeds, a second call with the same \<open>b\<close> (the flag now equals \<open>b\<close>) sends the
  command again and waits the full delay again.
\<close>

theorem change_servo_state_unguarded:
  "(\<exists>k. observed (snd (change_servo_state mc b self)) =
         observed self @
         take k [Send (if b then SRV_ON mc else SRV_OFF mc), Receive, Sleep (SERVO_INIT_SEC mc)])
   \<and> (fst (change_servo_state mc b self) = None \<longrightarrow>
        observed (snd (change_servo_state mc b self)) =
          observed self @
          [Send (if b then SRV_ON mc else SRV_OFF mc), Receive, Sleep (SERVO_INIT_SEC mc)]
        \<and> servo (snd (change_servo_state mc b self)) = b)
   \<and> (fst (change_servo_state mc b self) \<noteq> None \<longrightarrow>
        (\<exists>k. observed (snd (change_servo_state mc b self)) =
           observed self @ take k [Send (if b then SRV_ON mc else SRV_OFF mc), Receive])
        \<and> servo (snd (change_servo_state mc b self)) = servo self)
   \<and> com_ctrl (snd (change_servo_state mc b self)) = com_ctrl self
   \<and> joints (snd (change_servo_state mc b self)) = joints self
   \<and> (has_methods (tcp self) \<and> always_succeeds (tcp self) \<longrightarrow>
        fst (change_servo_state mc b self) = None
        \<and> fst (change_servo_state mc b (snd (change_servo_state mc b self))) = None
        \<and> servo (snd (change_servo_state mc b (snd (change_servo_state mc b self)))) = b
        \<and> observed (snd (change_servo_state mc b (snd (change_servo_state mc b self)))) =
            observed self @
            [Send (if b then SRV_ON mc else SRV_OFF mc), Receive, Sleep (SERVO_INIT_SEC mc),
             Send (if b then SRV_ON mc else SRV_OFF mc), Receive, Sleep (SERVO_INIT_SEC mc)])"
proof (intro conjI impI)
  let ?evs = "[Send (if b then SRV_ON mc else SRV_OFF mc), Receive, Sleep (SERVO_INIT_SEC mc)]"
  let ?s1 = "snd (change_servo_state mc b self)"
  show "\<exists>k. observed ?s1 = observed self @ take k ?evs"
    using emits_prefixD [OF emits_change_servo_state [of mc b], of self] by blast
  show "com_ctrl ?s1 = com_ctrl self"
    using keepsD [OF keeps_change_servo_state(2)] .
  show "joints ?s1 = joints self"
    using keepsD [OF keeps_change_servo_state(1)] .
  {
    assume ret: "fst (change_servo_state mc b self) = None"
    show "observed ?s1 = observed self @ ?evs"
      using emitsD [OF emits_change_servo_state ret] .
    show "servo ?s1 = b"
      using ret by (simp add: change_servo_state_servo)
  }
  {
    assume err: "fst (change_servo_state mc b self) \<noteq> None"
    show "\<exists>k. observed ?s1 =
            observed self @ take k [Send (if b then SRV_ON mc else SRV_OFF mc), Receive]"
      using change_servo_state_raised_events [OF err] .
    show "servo ?s1 = servo self"
      using err change_servo_state_servo [of mc b self] by auto
  }
  {
    assume "has_methods (tcp self) \<and> always_succeeds (tcp self)"
    then have rel: "reliable (tcp self)" by (simp add: reliable_def)
    show ret1: "fst (change_servo_state mc b self) = None"
      using returnsD [OF returns_change_servo_state rel] .
    have rel1: "reliable (tcp ?s1)"
      using returns_reliableD [OF returns_change_servo_state rel] .
    show ret2: "fst (change_servo_state mc b ?s1) = None"
      using returnsD [OF returns_change_servo_state rel1] .
    show "servo (snd (change_servo_state mc b ?s1)) = b"
      using ret2 by (simp add: change_servo_state_servo)
    show "observed (snd (change_servo_state mc b ?s1)) =
            observed self @
            [Send (if b then SRV_ON mc else SRV_OFF mc), Receive, Sleep (SERVO_INIT_SEC mc),
             Send (if b then SRV_ON mc else SRV_OFF mc), Receive, Sleep (SERVO_INIT_SEC mc)]"
      using emitsD [OF emits_change_servo_state ret1] emitsD [OF emits_change_servo_state ret2]
      by simp
  }
qed

lemma reliable_fresh_robot:
  "has_methods (tcp (fresh_robot None)) \<and> always_succeeds (tcp (fresh_robot None))"
  by (simp add: fresh_robot_def init_def test_client_def has_methods_def always_succeeds_def)

theorem change_servo_state_unguarded_witness:
  "has_methods (tcp (fresh_robot None)) \<and> always_succeeds (tcp (fresh_robot None))
   \<and> servo (snd (change_servo_state example_cmd True
                   (snd (change_servo_state example_cmd True (fresh_robot None))))) = True
   \<and> observed (snd (change_servo_state example_cmd True
                   (snd (change_servo_state example_cmd True (fresh_robot None))))) =
       [Send ''SRVON'', Receive, Sleep 5, Send ''SRVON'', Receive, Sleep 5]
   \<and> fst (change_servo_state example_cmd False (fresh_robot (Some 1)))
       = Some (TransportError ''connection lost'')
   \<and> observed (snd (change_servo_state example_cmd False (fresh_robot (Some 1))))
       = [Send ''SRVOFF'', Receive]
   \<and> servo (snd (change_servo_state example_cmd False (fresh_robot (Some 1)))) = False"
proof -
  have obs: "observed (fresh_robot None) = []"
    by (simp add: run_defs)
  note r = change_servo_state_unguarded [of example_cmd True "fresh_robot None",
      THEN conjunct2, THEN conjunct2, THEN conjunct2, THEN conjunct2, THEN conjunct2,
      rule_format, OF reliable_fresh_robot]
  have e: "fst (change_servo_state example_cmd False (fresh_robot (Some 1)))
       = Some (TransportError ''connection lost'')"
    "observed (snd (change_servo_state example_cmd False (fresh_robot (Some 1))))
       = [Send ''SRVOFF'', Receive]"
    "servo (fresh_robot (Some 1)) = False"
    by (simp_all add: run_defs)
  have ne: "fst (change_servo_state example_cmd False (fresh_robot (Some 1))) \<noteq> None"
    using e(1) by simp
  note q = change_servo_state_unguarded [of example_cmd False "fresh_robot (Some 1)",
      THEN conjunct2, THEN conjunct2, THEN conjunct1, rule_format, OF ne]
  show ?thesis
    using r q e obs reliable_fresh_robot by (simp add: example_cmd_def)
qed

text \<open>
  C7. \<^verbatim>\<open>maintenance()\<close> is the communication-on step alone. In every run it
  leaves \<open>servo\<close> and the joints as they were, and its history is an initial part
  of: send open communication, receive, send control on, receive; so no servo
  command and no safe-position command is sent. When it returns, \<open>com_ctrl\<close> is
  true and the history is all four events; on a transport that always succeeds
  it returns.
\<close>

theorem maintenance_frame:
  "servo (snd (maintenance mc self)) = servo self
   \<and> joints (snd (maintenance mc self)) = joints self
   \<and> (\<exists>k. observed (snd (maintenance mc self)) =
         observed self @ take k [Send (COM_OPEN mc), Receive, Send (CNTL_ON mc), Receive])
   \<and> (fst (maintenance mc self) = None \<longrightarrow>
        com_ctrl (snd (maintenance mc self)) = True
        \<and> observed (snd (maintenance mc self)) =
            observed self @ [Send (COM_OPEN mc), Receive, Send (CNTL_ON mc), Receive])
   \<and> (has_methods (tcp self) \<and> always_succeeds (tcp self) \<longrightarrow>
        fst (maintenance mc self) = None)"
proof (intro conjI impI)
  show "servo (snd (maintenance mc self)) = servo self"
    unfolding maintenance_def using keepsD [OF keeps_change_communication_state(2)] .
  show "joints (snd (maintenance mc self)) = joints self"
    unfolding maintenance_def using keepsD [OF keeps_change_communication_state(1)] .
  show "\<exists>k. observed (snd (maintenance mc self)) =
         observed self @ take k [Send (COM_OPEN mc), Receive, Send (CNTL_ON mc), Receive]"
    unfolding maintenance_def
    using emits_prefixD [OF emits_change_communication_state [of mc True], of self] by auto
  {
    assume ret: "fst (maintenance mc self) = None"
    show "com_ctrl (snd (maintenance mc self)) = True"
      using ret by (simp add: maintenance_def change_communication_state_com_ctrl)
    show "observed (snd (maintenance mc self)) =
            observed self @ [Send (COM_OPEN mc), Receive, Send (CNTL_ON mc), Receive]"
      using emitsD [OF emits_change_communication_state [of mc True], of self] ret
      by (simp add: maintenance_def)
  }
  {
    assume "has_methods (tcp self) \<and> always_succeeds (tcp self)"
    then have rel: "reliable (tcp self)" by (simp add: reliable_def)
    show "fst (maintenance mc self) = None"
      using returnsD [OF returns_maintenance rel] .
  }
qed

theorem maintenance_frame_witness:
  "has_methods (tcp (snd (change_servo_state example_cmd True (fresh_robot None))))
   \<and> always_succeeds (tcp (snd (change_servo_state example_cmd True (fresh_robot None))))
   \<and> fst (maintenance example_cmd (snd (change_servo_state example_cmd True (fresh_robot None)))) = None
   \<and> com_ctrl (snd (maintenance example_cmd (snd (change_servo_state example_cmd True (fresh_robot None))))) = True
   \<and> servo (snd (maintenance example_cmd (snd (change_servo_state example_cmd True (fresh_robot None))))) = True
   \<and> observed (snd (maintenance example_cmd (snd (change_servo_state example_cmd True (fresh_robot None))))) =
       [Send ''SRVON'', Receive, Sleep 5, Send ''OPEN'', Receive, Send ''CNTLON'', Receive]"
proof -
  let ?s = "snd (change_servo_state example_cmd True (fresh_robot None))"
  have rel: "has_methods (tcp ?s) \<and> always_succeeds (tcp ?s)"
    by (simp add: run_defs has_methods_def always_succeeds_def)
  have s: "servo ?s = True" "observed ?s = [Send ''SRVON'', Receive, Sleep 5]"
    by (simp_all add: run_defs)
  note m = maintenance_frame [of example_cmd ?s]
  have ret: "fst (maintenance example_cmd ?s) = None"
    using m rel by blast
  have "com_ctrl (snd (maintenance example_cmd ?s)) = True"
    and "observed (snd (maintenance example_cmd ?s)) =
            observed ?s @ [Send (COM_OPEN example_cmd), Receive, Send (CNTL_ON example_cmd), Receive]"
    and "servo (snd (maintenance example_cmd ?s)) = servo ?s"
    using m ret by blast+
  then show ?thesis
    using rel ret s by (simp add: example_cmd_def)
qed

lemma go_safe_pos_skip: "go_safe_pos = (\<lambda>self. (None, self))"
  by (rule ext) (simp add: go_safe_pos_def)

text \<open>
  C9. \<^verbatim>\<open>go_safe_pos()\<close> returns the session exactly as it was: no \<^verbatim>\<open>send\<close>, no
  \<^verbatim>\<open>receive\<close>, no field changed. Hence \<^verbatim>\<open>start\<close> and \<^verbatim>\<open>shutdown\<close> behave the same
  with and without the safe-position step.
\<close>

theorem go_safe_pos_noop:
  "go_safe_pos self = (None, self)
   \<and> start mc True self = start mc False self
   \<and> shutdown mc True self = shutdown mc False self"
  by (simp add: start_def shutdown_def go_safe_pos_skip)

subsection \<open>raises_transport_only\<close>

lemma raises_transport_only_then_do:
  assumes "raises_transport_only p" and "raises_transport_only q"
  shows "raises_transport_only (then_do p q)"
  unfolding raises_transport_only_def
proof (intro allI impI)
  fix s :: "('a, 'b) MelfaRobot"
  assume h: "has_methods (tcp s)"
  obtain r s1 where ps: "p s = (r, s1)" by (cases "p s")
  have p1: "has_methods (tcp s1)"
    and p2: "\<forall>x. r = Some x \<longrightarrow> \<not> own_exception x"
    using assms(1) h ps unfolding raises_transport_only_def by (metis fst_conv snd_conv)+
  show "has_methods (tcp (snd (then_do p q s))) \<and>
        (\<forall>x. fst (then_do p q s) = Some x \<longrightarrow> \<not> own_exception x)"
  proof (cases r)
    case None
    then have "then_do p q s = q s1" using ps by (simp add: then_do_None)
    then show ?thesis using assms(2) p1 unfolding raises_transport_only_def by simp
  next
    case (Some x)
    then have "then_do p q s = (Some x, s1)" using ps by (simp add: then_do_Some)
    then show ?thesis using p1 p2 Some by simp
  qed
qed

lemma raises_transport_only_tcp_send: "raises_transport_only (tcp_send m)"
  unfolding raises_transport_only_def
  by (auto simp: has_methods_iff tcp_send_def case_prod_beta split: option.splits)

lemma raises_transport_only_tcp_receive: "raises_transport_only tcp_receive"
  unfolding raises_transport_only_def
  by (auto simp: has_methods_iff tcp_receive_def case_prod_beta split: option.splits sum.splits)

lemma raises_transport_only_sleep: "raises_transport_only (sleep d)"
  by (simp add: raises_transport_only_def sleep_def)

lemma raises_transport_only_assign:
  "(\<And>s. tcp (upd s) = tcp s) \<Longrightarrow> raises_transport_only (\<lambda>self. (None, upd self))"
  by (simp add: raises_transport_only_def)

lemma raises_transport_only_skip: "raises_transport_only (\<lambda>self. (None, self))"
  by (simp add: raises_transport_only_def)

lemma raises_transport_only_go_safe_pos: "raises_transport_only go_safe_pos"
  by (simp add: raises_transport_only_def go_safe_pos_def)

lemmas raises_transport_only_primitives =
  raises_transport_only_then_do raises_transport_only_tcp_send raises_transport_only_tcp_receive
  raises_transport_only_sleep raises_transport_only_assign raises_transport_only_skip
  raises_transport_only_go_safe_pos

lemma raises_transport_only_change_servo_state:
  "raises_transport_only (change_servo_state mc b)"
  by (simp add: change_servo_state_def raises_transport_only_primitives)

lemma raises_transport_only_change_communication_state:
  "raises_transport_only (change_communication_state mc b)"
  by (simp add: change_communication_state_def raises_transport_only_primitives)

lemma raises_transport_only_exec_call: "raises_transport_only (exec_call mc c)"
proof (cases c)
  case (Start x)
  then show ?thesis
    by (simp add: start_def raises_transport_only_primitives
        raises_transport_only_change_servo_state raises_transport_only_change_communication_state)
next
  case (Shutdown x)
  then show ?thesis
    by (simp add: shutdown_def raises_transport_only_primitives
        raises_transport_only_change_servo_state raises_transport_only_change_communication_state)
next
  case Maintenance
  then show ?thesis
    by (simp add: maintenance_def raises_transport_only_change_communication_state)
next
  case (Change_communication_state x)
  then show ?thesis by (simp add: raises_transport_only_change_communication_state)
next
  case (Change_servo_state x)
  then show ?thesis by (simp add: raises_transport_only_change_servo_state)
qed (simp_all add: raises_transport_only_def
      reset_speed_factors_def go_safe_pos_def linear_move_poll_def circular_move_poll_def)

lemma run_calls_Cons: "run_calls mc (c # cs) = then_do (exec_call mc c) (run_calls mc cs)"
  by (rule ext) simp

lemma run_calls_Nil: "run_calls mc [] = (\<lambda>self. (None, self))"
  by (rule ext) simp

lemma raises_transport_only_run_calls: "raises_transport_only (run_calls mc cs)"
proof (induction cs)
  case Nil
  show ?case unfolding run_calls_Nil by (rule raises_transport_only_skip)
next
  case (Cons c cs)
  show ?case unfolding run_calls_Cons
    by (rule raises_transport_only_then_do [OF raises_transport_only_exec_call Cons.IH])
qed

lemma raises_transport_onlyD:
  assumes "raises_transport_only p" and "has_methods (tcp s)"
  shows "has_methods (tcp (snd (p s)))
         \<and> fst (p s) \<noteq> Some (TypeError msg) \<and> fst (p s) \<noteq> Some (AttributeError msg)"
  using assms unfolding raises_transport_only_def
  by (metis own_exception.simps(1,2))

text \<open>
  What the constructor does check, and what the methods can raise over a
  transport whose \<^verbatim>\<open>send\<close> and \<^verbatim>\<open>receive\<close> are methods.
\<close>

lemma init_checks:
  "(number_axes \<le> 0 \<or> send_attr tcp_client = None \<or> receive_attr tcp_client = None
      \<longrightarrow> (\<exists>msg. init tcp_client number_axes = Inl (TypeError msg)))
   \<and> (init tcp_client number_axes = Inr r \<longrightarrow>
        0 < number_axes \<and> send_attr tcp_client \<noteq> None \<and> receive_attr tcp_client \<noteq> None
        \<and> tcp r = tcp_client \<and> observed r = [])"
  by (auto simp: init_def split: if_splits)

lemma methods_raise_transport_only:
  assumes "has_methods (tcp self)"
  shows "has_methods (tcp (snd (run_calls mc cs self)))
         \<and> fst (run_calls mc cs self) \<noteq> Some (TypeError msg)
         \<and> fst (run_calls mc cs self) \<noteq> Some (AttributeError msg)"
  using raises_transport_onlyD [OF raises_transport_only_run_calls assms] .

lemmas run_defs2 = run_defs reset_speed_factors_def linear_move_poll_def circular_move_poll_def

lemma init_raises_examples:
  "init (test_client None ''ok'') 0 = Inl (TypeError ''Illegal number of axes.'')"
  "init (test_client None ''ok'') (- 3) = Inl (TypeError ''Illegal number of axes.'')"
  "init send_only_client 6 = Inl (TypeError ''TCP-client does not implement required methods.'')"
  "fst (run_calls example_cmd [Start True, Linear_move_poll, Shutdown True] (fresh_robot (Some 8)))
     = Some (TransportError ''connection lost'')"
  by (simp_all add: run_defs2 send_only_client_def)

text \<open>
  C5 fails on the code. The constructor's check is \<^verbatim>\<open>hasattr\<close>, which asks
  whether the attributes are present, not whether they can be called, although
  its own message is \<^verbatim>\<open>TCP-client does not implement required methods.\<close> A
  transport object with \<^verbatim>\<open>send = None\<close> and a working \<^verbatim>\<open>receive\<close> lacks the send
  capability: the constructor accepts it with six axes, and the first
  \<^verbatim>\<open>start()\<close> then raises a \<^verbatim>\<open>TypeError\<close>
  (\<^verbatim>\<open>'NoneType' object is not callable\<close>) from inside the method, at the
  open-communication \<^verbatim>\<open>send\<close>, before anything reached the transport and with
  both flags still false.
\<close>

theorem init_accepts_uncallable_send:
  "init uncallable_send_client 6 = Inr (projr (init uncallable_send_client 6))
   \<and> tcp (projr (init uncallable_send_client 6)) = uncallable_send_client
   \<and> fst (start example_cmd True (projr (init uncallable_send_client 6)))
       = Some (TypeError (CHR 0x27 # ''NoneType'' @ CHR 0x27 # '' object is not callable''))
   \<and> observed (snd (start example_cmd True (projr (init uncallable_send_client 6)))) = []
   \<and> com_ctrl (snd (start example_cmd True (projr (init uncallable_send_client 6)))) = False
   \<and> servo (snd (start example_cmd True (projr (init uncallable_send_client 6)))) = False"
  by (simp add: init_def uncallable_send_client_def example_cmd_def start_def
      change_communication_state_def then_do_def tcp_send_def not_callable_def)












lemma payload_variant_internal:
  "payload_variant c1 c2 \<Longrightarrow> payload_variant (c1\<lparr>internal := t\<rparr>) (c2\<lparr>internal := t\<rparr>)"
  by (auto simp: payload_variant_def split: option.splits attribute.splits)

lemma payload_blind_then_do:
  assumes "payload_blind p" and "payload_blind q"
  shows "payload_blind (then_do p q)"
  unfolding payload_blind_def
proof (intro allI impI)
  fix s1 s2 :: "('a, 'b) MelfaRobot"
  assume tw: "twin s1 s2"
  obtain r1 s1' where p1: "p s1 = (r1, s1')" by (cases "p s1")
  obtain r2 s2' where p2: "p s2 = (r2, s2')" by (cases "p s2")
  have r: "r1 = r2" and tw': "twin s1' s2'"
    using assms(1) tw p1 p2 unfolding payload_blind_def by (metis fst_conv snd_conv)+
  show "fst (then_do p q s1) = fst (then_do p q s2)
        \<and> twin (snd (then_do p q s1)) (snd (then_do p q s2))"
  proof (cases r1)
    case None
    then have "then_do p q s1 = q s1'" "then_do p q s2 = q s2'"
      using p1 p2 r by (simp_all add: then_do_None)
    then show ?thesis using assms(2) tw' unfolding payload_blind_def by simp
  next
    case (Some x)
    then have "then_do p q s1 = (Some x, s1')" "then_do p q s2 = (Some x, s2')"
      using p1 p2 r by (simp_all add: then_do_Some)
    then show ?thesis using tw' by simp
  qed
qed

lemma payload_blind_tcp_send: "payload_blind (tcp_send m)"
  unfolding payload_blind_def
proof (intro allI impI)
  fix s1 s2 :: "('a, 'b) MelfaRobot"
  assume tw: "twin s1 s2"
  then have pv: "payload_variant (tcp s1) (tcp s2)"
    and sa: "send_attr (tcp s1) = send_attr (tcp s2)"
    and it: "internal (tcp s1) = internal (tcp s2)"
    by (simp_all add: twin_def payload_variant_def)
  show "fst (tcp_send m s1) = fst (tcp_send m s2) \<and> twin (snd (tcp_send m s1)) (snd (tcp_send m s2))"
  proof (cases "send_attr (tcp s1)")
    case None
    then show ?thesis using sa tw by (simp add: tcp_send_def)
  next
    case (Some a)
    show ?thesis
    proof (cases a)
      case (Not_callable type_name)
      then show ?thesis using Some sa tw by (simp add: tcp_send_def)
    next
      case (Method f)
      then show ?thesis
        using Some sa it tw payload_variant_internal [OF pv]
        by (simp add: tcp_send_def case_prod_beta twin_def)
    qed
  qed
qed

lemma same_outcome_exn:
  "same_outcome r1 r2 \<Longrightarrow>
     (case r1 of Inl e \<Rightarrow> Some (TransportError e) | Inr response \<Rightarrow> None)
       = (case r2 of Inl e \<Rightarrow> Some (TransportError e) | Inr response \<Rightarrow> None)"
  by (auto simp: same_outcome_def split: sum.splits)

lemma payload_blind_tcp_receive: "payload_blind tcp_receive"
  unfolding payload_blind_def
proof (intro allI impI)
  fix s1 s2 :: "('a, 'b) MelfaRobot"
  assume tw: "twin s1 s2"
  then have pv: "payload_variant (tcp s1) (tcp s2)"
    and it: "internal (tcp s1) = internal (tcp s2)"
    by (simp_all add: twin_def payload_variant_def)
  show "fst (tcp_receive s1) = fst (tcp_receive s2) \<and> twin (snd (tcp_receive s1)) (snd (tcp_receive s2))"
  proof (cases "receive_attr (tcp s1)")
    case None
    then have "receive_attr (tcp s2) = None"
      using pv by (simp add: payload_variant_def)
    then show ?thesis using None tw by (simp add: tcp_receive_def)
  next
    case (Some a)
    show ?thesis
    proof (cases a)
      case (Not_callable type_name)
      then have "receive_attr (tcp s2) = Some (Not_callable type_name)"
        using pv Some by (simp add: payload_variant_def)
      then show ?thesis using Some Not_callable tw by (simp add: tcp_receive_def)
    next
      case (Method g1)
      then obtain g2 where g2: "receive_attr (tcp s2) = Some (Method g2)"
        and nxt: "\<And>t. snd (g1 t) = snd (g2 t)"
        and out: "\<And>t. same_outcome (fst (g1 t)) (fst (g2 t))"
        using pv Some by (auto simp: payload_variant_def split: option.splits attribute.splits)
      show ?thesis
        using Some Method g2 it tw nxt [of "internal (tcp s2)"]
          same_outcome_exn [OF out [of "internal (tcp s2)"]]
          payload_variant_internal [OF pv]
        by (simp add: tcp_receive_def case_prod_beta twin_def)
    qed
  qed
qed

lemma payload_blind_sleep: "payload_blind (sleep d)"
  by (simp add: payload_blind_def sleep_def twin_def)

lemma payload_blind_skip: "payload_blind (\<lambda>self. (None, self))"
  by (simp add: payload_blind_def)

lemma payload_blind_go_safe_pos: "payload_blind go_safe_pos"
  by (simp add: payload_blind_def go_safe_pos_def)

lemma payload_blind_set_servo: "payload_blind (\<lambda>self. (None, self\<lparr>servo := b\<rparr>))"
  by (simp add: payload_blind_def twin_def)

lemma payload_blind_set_com_ctrl: "payload_blind (\<lambda>self. (None, self\<lparr>com_ctrl := b\<rparr>))"
  by (simp add: payload_blind_def twin_def)

lemmas payload_blind_primitives =
  payload_blind_then_do payload_blind_tcp_send payload_blind_tcp_receive payload_blind_sleep payload_blind_skip
  payload_blind_go_safe_pos payload_blind_set_servo payload_blind_set_com_ctrl

lemma payload_blind_change_servo_state: "payload_blind (change_servo_state mc b)"
  by (simp add: change_servo_state_def payload_blind_primitives)

lemma payload_blind_change_communication_state: "payload_blind (change_communication_state mc b)"
  by (simp add: change_communication_state_def payload_blind_primitives)

lemma payload_blind_exec_call: "payload_blind (exec_call mc c)"
proof (cases c)
  case (Start x)
  then show ?thesis
    by (simp add: start_def payload_blind_primitives payload_blind_change_servo_state
        payload_blind_change_communication_state)
next
  case (Shutdown x)
  then show ?thesis
    by (simp add: shutdown_def payload_blind_primitives payload_blind_change_servo_state
        payload_blind_change_communication_state)
next
  case Maintenance
  then show ?thesis by (simp add: maintenance_def payload_blind_change_communication_state)
next
  case (Change_communication_state x)
  then show ?thesis by (simp add: payload_blind_change_communication_state)
next
  case (Change_servo_state x)
  then show ?thesis by (simp add: payload_blind_change_servo_state)
qed (simp_all add: payload_blind_def
      reset_speed_factors_def go_safe_pos_def linear_move_poll_def circular_move_poll_def)

lemma payload_blind_run_calls: "payload_blind (run_calls mc cs)"
proof (induction cs)
  case Nil
  show ?case unfolding run_calls_Nil by (rule payload_blind_skip)
next
  case (Cons c cs)
  show ?case unfolding run_calls_Cons
    by (rule payload_blind_then_do [OF payload_blind_exec_call Cons.IH])
qed

text \<open>
  C10. Take two sessions with the same flags whose transports differ in the
  response payloads only (\<open>payload_variant\<close>), and run the same script of calls on
  both. Then both runs end the same way (both return, or both raise the same
  exception at the same call), and the servo and communication flags at the end
  are the same in both: no operation looks at what \<^verbatim>\<open>receive\<close> returned. In
  particular this holds when every \<^verbatim>\<open>receive\<close> returns, with different bytes.
\<close>

theorem flags_independent_of_payloads:
  assumes "payload_variant (tcp s1) (tcp s2)"
      and "servo s1 = servo s2" and "com_ctrl s1 = com_ctrl s2"
  shows "fst (run_calls mc cs s1) = fst (run_calls mc cs s2)
         \<and> servo (snd (run_calls mc cs s1)) = servo (snd (run_calls mc cs s2))
         \<and> com_ctrl (snd (run_calls mc cs s1)) = com_ctrl (snd (run_calls mc cs s2))
         \<and> payload_variant (tcp (snd (run_calls mc cs s1))) (tcp (snd (run_calls mc cs s2)))"
proof -
  have "twin s1 s2" using assms by (simp add: twin_def)
  then have "fst (run_calls mc cs s1) = fst (run_calls mc cs s2)
             \<and> twin (snd (run_calls mc cs s1)) (snd (run_calls mc cs s2))"
    using payload_blind_run_calls [of mc cs] unfolding payload_blind_def by blast
  then show ?thesis by (simp add: twin_def)
qed

theorem flags_independent_of_payloads_witness:
  "payload_variant (test_client None ''ok'') (test_client None ''error'')
   \<and> fst (method_of (the (receive_attr (test_client None ''ok''))) 0) = Inr ''ok''
   \<and> fst (method_of (the (receive_attr (test_client None ''error''))) 0) = Inr ''error''
   \<and> fst (run_calls example_cmd [Start True, Change_servo_state False, Maintenance] (fresh_robot None))
       = None
   \<and> fst (run_calls example_cmd [Start True, Change_servo_state False, Maintenance]
            ((fresh_robot None)\<lparr>tcp := test_client None ''error''\<rparr>)) = None
   \<and> servo (snd (run_calls example_cmd [Start True, Change_servo_state False, Maintenance]
            ((fresh_robot None)\<lparr>tcp := test_client None ''error''\<rparr>))) = False
   \<and> com_ctrl (snd (run_calls example_cmd [Start True, Change_servo_state False, Maintenance]
            ((fresh_robot None)\<lparr>tcp := test_client None ''error''\<rparr>))) = True"
proof -
  let ?cs = "[Start True, Change_servo_state False, Maintenance]"
  let ?s1 = "fresh_robot None"
  let ?s2 = "(fresh_robot None)\<lparr>tcp := test_client None ''error''\<rparr>"
  have pv: "payload_variant (test_client None ''ok'') (test_client None ''error'')"
    by (simp add: payload_variant_def test_client_def same_outcome_def)
  have t1: "tcp ?s1 = test_client None ''ok''"
    by (simp add: fresh_robot_def init_def test_client_def)
  have h1: "payload_variant (tcp ?s1) (tcp ?s2)"
    using pv t1 by simp
  have h2: "servo ?s1 = servo ?s2" and h3: "com_ctrl ?s1 = com_ctrl ?s2"
    by simp_all
  note r = flags_independent_of_payloads [OF h1 h2 h3, of example_cmd ?cs]
  have a: "fst (run_calls example_cmd ?cs ?s1) = None"
    "servo (snd (run_calls example_cmd ?cs ?s1)) = False"
    "com_ctrl (snd (run_calls example_cmd ?cs ?s1)) = True"
    by (simp_all add: run_defs)
  have b: "fst (method_of (the (receive_attr (test_client None ''ok''))) 0) = Inr ''ok''"
    "fst (method_of (the (receive_attr (test_client None ''error''))) 0) = Inr ''error''"
    by (simp_all add: test_client_def)
  have "fst (run_calls example_cmd ?cs ?s2) = None"
    "servo (snd (run_calls example_cmd ?cs ?s2)) = False"
    "com_ctrl (snd (run_calls example_cmd ?cs ?s2)) = True"
    using r a by simp_all
  then show ?thesis using pv a b by (simp only: simp_thms)
qed

text \<open>
  C8. For every integer \<open>x\<close>, \<open>validate_id x\<close> is true exactly when \<open>x\<close> lies in
  the range from 0 to 65535, both included; it is true at 0 and 65535, false at
  -1 and 65536, and each case of the repository's test agrees with it.
\<close>

theorem validate_id_range:
  "validate_id x = (x \<in> {0..65535})
   \<and> validate_id 0 = True \<and> validate_id (- 1) = False
   \<and> validate_id 65535 = True \<and> validate_id 65536 = False
   \<and> list_all (\<lambda>(v, valid). validate_id v = valid) test_validate_id_params"
  by (simp add: validate_id_def test_validate_id_params_def)

end
